theory Spec2Isabelle
  imports Complex_Main
begin

section \<open>Python values\<close>

text \<open>
  A Python \<open>str\<close> is a sequence of Unicode code points; it is modelled as the list of
  their numbers. \<open>lit\<close> turns an ASCII literal into such a list.
\<close>

type_synonym pystr = "nat list"

definition lit :: "string \<Rightarrow> pystr" where
  "lit s = map of_char s"

text \<open>
  The code points for which \<open>str.isspace\<close> holds. Both \<open>str.strip()\<close> and the regular
  expression class \<open>\s\<close> of a \<open>str\<close> pattern use this set.
\<close>

definition py_isspace :: "nat \<Rightarrow> bool" where
  "py_isspace c = (c \<in> set [9, 10, 11, 12, 13, 28, 29, 30, 31, 32, 133, 160, 5760,
      8192, 8193, 8194, 8195, 8196, 8197, 8198, 8199, 8200, 8201, 8202,
      8232, 8233, 8239, 8287, 12288])"

text \<open>\<open>s.strip()\<close>: leading and trailing whitespace removed.\<close>

definition strip :: "pystr \<Rightarrow> pystr" where
  "strip s = rev (dropWhile py_isspace (rev (dropWhile py_isspace s)))"

text \<open>
  \<open>str.lower\<close> is the case mapping of the Unicode library; the functions below take it as
  the parameter \<open>lower\<close>. \<open>ascii_lower\<close> is its restriction to ASCII letters, used to run the
  model on concrete ASCII inputs.
\<close>

definition ascii_lower :: "pystr \<Rightarrow> pystr" where
  "ascii_lower s = map (\<lambda>c. if 65 \<le> c \<and> c \<le> 90 then c + 32 else c) s"

text \<open>
  The values \<open>json.loads\<close> puts into a dictionary. The code looks at a value in three ways
  only: its truth value (\<open>s or ""\<close>), whether it is a \<open>str\<close> (\<open>.strip()\<close>), and its
  \<open>str()\<close> text. A float, list or dict is therefore carried as \<open>POther\<close> with its truth
  value and its \<open>str()\<close> text.
\<close>

datatype pyval = PNone | PBool bool | PInt int | PStr pystr | POther bool pystr

fun truthy :: "pyval \<Rightarrow> bool" where
  "truthy PNone = False"
| "truthy (PBool b) = b"
| "truthy (PInt i) = (i \<noteq> 0)"
| "truthy (PStr s) = (s \<noteq> [])"
| "truthy (POther t txt) = t"

fun digits :: "nat \<Rightarrow> pystr" where
  "digits n = (if n < 10 then [48 + n] else digits (n div 10) @ [48 + n mod 10])"

declare digits.simps [simp del]

fun py_str :: "pyval \<Rightarrow> pystr" where
  "py_str PNone = lit ''None''"
| "py_str (PBool b) = (if b then lit ''True'' else lit ''False'')"
| "py_str (PInt i) = (if i < 0 then 45 # digits (nat (- i)) else digits (nat i))"
| "py_str (PStr s) = s"
| "py_str (POther t txt) = txt"

text \<open>The exceptions the model distinguishes.\<close>

datatype exc =
    AskError pystr  \<comment> \<open>raised inside \<open>_ask_gemini\<close>: the remote call, \<open>resp.text\<close> or \<open>json.loads\<close>\<close>
  | AttributeError  \<comment> \<open>\<open>.get\<close> on a value that is no dict, \<open>.strip\<close> on a value that is no str\<close>
  | TypeError       \<comment> \<open>\<open>raise None\<close>, item assignment on a value that is no dict\<close>
  | ValueError      \<comment> \<open>\<open>time.sleep\<close> of a negative length\<close>
  | UnicodeEncodeError  \<comment> \<open>\<open>text.encode("utf-8")\<close> on a lone surrogate\<close>

section \<open>llm.py: sentiment and word count\<close>

text \<open>
  \<^verbatim>\<open>
  def _normalize_sentiment(s: str) -> str:
      s = (s or "").strip().lower()
      if s in {"pos", "positive", <U+F0 U+178 U+2018>, "good"}: return "pos"
      if s in {"neg", "negative", <U+F0 U+178 U+2018 U+17D>, "bad"}: return "neg"
      return "mixed"
  \<close>
  The third token of each set is written here by its code points, as the source file has
  it. The caller passes \<open>data.get("sentiment")\<close>, any JSON value; \<open>.strip()\<close> on a value
  that is not a \<open>str\<close> raises \<open>AttributeError\<close>.
\<close>

definition normalize_sentiment :: "(pystr \<Rightarrow> pystr) \<Rightarrow> pyval \<Rightarrow> exc + pystr" where
  "normalize_sentiment lower v =
     (case (if truthy v then v else PStr []) of
        PStr s0 \<Rightarrow>
          (let s = lower (strip s0) in
           if s \<in> set [lit ''pos'', lit ''positive'', [240, 376, 8216], lit ''good'']
             then Inr (lit ''pos'')
           else if s \<in> set [lit ''neg'', lit ''negative'', [240, 376, 8216, 381], lit ''bad'']
             then Inr (lit ''neg'')
           else Inr (lit ''mixed''))
      | _ \<Rightarrow> Inl AttributeError)"

text \<open>\<open>_WS_RE.sub(" ", t)\<close>: every maximal run of whitespace becomes one space.\<close>

function ws_sub :: "pystr \<Rightarrow> pystr" where
  "ws_sub [] = []"
| "ws_sub (c # cs) =
     (if py_isspace c then 32 # ws_sub (dropWhile py_isspace cs) else c # ws_sub cs)"
  by pat_completeness auto
termination
proof (relation "measure length")
  show "wf (measure length)" by simp
next
  fix c :: nat and cs :: "nat list"
  have "length (dropWhile py_isspace cs) \<le> length cs" by (rule length_dropWhile_le)
  then show "(dropWhile py_isspace cs, c # cs) \<in> measure length" by simp
next
  fix c :: nat and cs :: "nat list"
  show "(cs, c # cs) \<in> measure length" by simp
qed

text \<open>\<open>t.split(sep)\<close> for a separator of one character: empty pieces are kept.\<close>

fun split_on :: "nat \<Rightarrow> pystr \<Rightarrow> pystr list" where
  "split_on sep [] = [[]]"
| "split_on sep (c # cs) =
     (if c = sep then [] # split_on sep cs
      else (case split_on sep cs of [] \<Rightarrow> [[c]] | w # ws \<Rightarrow> (c # w) # ws))"

text \<open>
  \<^verbatim>\<open>
  def _count_words(text: str) -> int:
      return len([w for w in _WS_RE.sub(" ", (text or "").strip()).split(" ") if w])
  \<close>
\<close>

definition count_words :: "pystr \<Rightarrow> int" where
  "count_words text =
     int (length (filter (\<lambda>w. w \<noteq> []) (split_on 32 (ws_sub (strip text)))))"

section \<open>llm.py: the remote call\<close>

text \<open>
  \<open>_ask_gemini\<close> sends the prompt to the model and returns \<open>json.loads\<close> of the extracted
  text, or raises. What \<open>json.loads\<close> returns is a dict or some other JSON value; of the
  latter the code only ever calls \<open>.get\<close>, which raises.
\<close>

datatype reply = Dict "pystr \<Rightarrow> pyval option" | NotDict

text \<open>\<open>d.get(k, default)\<close>\<close>

definition dict_get :: "(pystr \<Rightarrow> pyval option) \<Rightarrow> pystr \<Rightarrow> pyval \<Rightarrow> pyval" where
  "dict_get d k dflt = (case d k of None \<Rightarrow> dflt | Some v \<Rightarrow> v)"

text \<open>
  The remote model is a black box. A script gives the outcome of the \<open>n\<close>-th call of
  \<open>_ask_gemini\<close> in a run; the world counts the calls made and records what happens, in
  order: the calls (a repair call with the range named in its extra instruction) and the
  sleeps.
\<close>

type_synonym script = "nat \<Rightarrow> exc + reply"

datatype event = AskPrimary | AskRepair int int | Sleep real

record world =
  ncalls :: nat
  events :: "event list"

definition ask_gemini :: "script \<Rightarrow> event \<Rightarrow> world \<Rightarrow> (exc + reply) \<times> world" where
  "ask_gemini sc ev w =
     (sc (ncalls w), w\<lparr>ncalls := ncalls w + 1, events := events w @ [ev]\<rparr>)"

text \<open>
  \<open>time.sleep(d)\<close> raises \<open>ValueError\<close> for a negative length. Lengths are exact reals
  here; the \<open>OverflowError\<close> of floating point and of oversized lengths is not modelled,
  and the statements about sleeps are made for lengths below that range.
\<close>

definition sleep :: "real \<Rightarrow> world \<Rightarrow> exc + world" where
  "sleep d w = (if d < 0 then Inl ValueError else Inr (w\<lparr>events := events w @ [Sleep d]\<rparr>))"

section \<open>llm.py: summarise\<close>

record params =
  retries :: int
  backoff :: real
  accept_min :: int
  accept_max :: int
  extreme_min :: int
  extreme_max :: int

definition defaults :: params where
  "defaults = \<lparr>retries = 2, backoff = 0.8, accept_min = 8, accept_max = 12,
                extreme_min = 6, extreme_max = 16\<rparr>"

record summary =
  sentiment :: pystr
  tldr :: pystr

text \<open>
  The inner \<open>try\<close>: one repair call; any exception in it is swallowed (\<open>except Exception:
  pass\<close>) and the \<open>tldr\<close> stays as it was.
  \<^verbatim>\<open>
  try:
      data2 = _ask_gemini(review_text, extra_instruction=...)
      tldr2 = str(data2.get("tldr", "")).strip()
      wc2 = _count_words(tldr2)
      if abs(wc2 - 10) < abs(wc - 10):
          tldr, wc = tldr2, wc2
  except Exception:
      pass
  \<close>
\<close>

definition repair :: "script \<Rightarrow> params \<Rightarrow> pystr \<Rightarrow> int \<Rightarrow> world \<Rightarrow> pystr \<times> world" where
  "repair sc p tldr0 wc w =
     (case ask_gemini sc (AskRepair (accept_min p) (accept_max p)) w of
        (Inl e, w2) \<Rightarrow> (tldr0, w2)
      | (Inr NotDict, w2) \<Rightarrow> (tldr0, w2)
      | (Inr (Dict data2), w2) \<Rightarrow>
          (let tldr2 = strip (py_str (dict_get data2 (lit ''tldr'') (PStr [])));
               wc2 = count_words tldr2
           in (if \<bar>wc2 - 10\<bar> < \<bar>wc - 10\<bar> then tldr2 else tldr0, w2)))"

text \<open>
  The body of the outer \<open>try\<close>: one pass of the primary call-and-parse sequence.
  \<^verbatim>\<open>
  data = _ask_gemini(review_text)
  tldr = str(data.get("tldr", "")).strip()
  sentiment = _normalize_sentiment(data.get("sentiment"))
  wc = _count_words(tldr)
  if wc < extreme_min or wc > extreme_max:
      <repair>
  return {"sentiment": sentiment, "tldr": tldr}
  \<close>
\<close>

definition attempt_body ::
  "(pystr \<Rightarrow> pystr) \<Rightarrow> script \<Rightarrow> params \<Rightarrow> world \<Rightarrow> (exc + summary) \<times> world" where
  "attempt_body lower sc p w =
     (case ask_gemini sc AskPrimary w of
        (Inl e, w1) \<Rightarrow> (Inl e, w1)
      | (Inr NotDict, w1) \<Rightarrow> (Inl AttributeError, w1)
      | (Inr (Dict data), w1) \<Rightarrow>
          (let tldr0 = strip (py_str (dict_get data (lit ''tldr'') (PStr [])))
           in case normalize_sentiment lower (dict_get data (lit ''sentiment'') PNone) of
                Inl e \<Rightarrow> (Inl e, w1)
              | Inr sent \<Rightarrow>
                  (let wc = count_words tldr0
                   in if wc < extreme_min p \<or> wc > extreme_max p
                      then (case repair sc p tldr0 wc w1 of
                              (tldr1, w2) \<Rightarrow> (Inr \<lparr>sentiment = sent, tldr = tldr1\<rparr>, w2))
                      else (Inr \<lparr>sentiment = sent, tldr = tldr0\<rparr>, w1))))"

text \<open>
  The loop \<open>for attempt in range(retries + 1)\<close> with its handler, and the \<open>raise last_err\<close>
  after it (\<open>raise None\<close> is a \<open>TypeError\<close>).
  \<^verbatim>\<open>
  except Exception as e:
      last_err = e
      if attempt < retries:
          time.sleep(backoff * (2 ** attempt))
      else:
          raise
  \<close>
\<close>

fun attempts ::
  "(pystr \<Rightarrow> pystr) \<Rightarrow> script \<Rightarrow> params \<Rightarrow> int list \<Rightarrow> exc option \<Rightarrow> world
     \<Rightarrow> (exc + summary) \<times> world" where
  "attempts lower sc p [] last_err w =
     (case last_err of None \<Rightarrow> (Inl TypeError, w) | Some e \<Rightarrow> (Inl e, w))"
| "attempts lower sc p (attempt # rest) last_err w =
     (case attempt_body lower sc p w of
        (Inr s, w1) \<Rightarrow> (Inr s, w1)
      | (Inl e, w1) \<Rightarrow>
          (if attempt < retries p
           then (case sleep (backoff p * 2 ^ nat attempt) w1 of
                   Inl e2 \<Rightarrow> (Inl e2, w1)
                 | Inr w2 \<Rightarrow> attempts lower sc p rest (Some e) w2)
           else (Inl e, w1)))"

definition summarise ::
  "(pystr \<Rightarrow> pystr) \<Rightarrow> script \<Rightarrow> params \<Rightarrow> world \<Rightarrow> (exc + summary) \<times> world" where
  "summarise lower sc p w = attempts lower sc p [0..retries p] None w"

text \<open>The world before any call.\<close>

definition w0 :: world where
  "w0 = \<lparr>ncalls = 0, events = []\<rparr>"

section \<open>main.py: the loop over the reviews\<close>

text \<open>
  A review as \<open>fetch_reviews\<close> builds it: \<open>{"author": ..., "text": ..., "recommended": ...}\<close>.
\<close>

record review =
  rev_author :: pystr
  rev_text :: pystr
  rev_recommended :: bool

text \<open>
  The dicts that \<open>run\<close> handles are objects: the one \<open>summarise\<close> returns is put into the
  cache, is then given two more items, and is appended to \<open>snapshots\<close>, all by reference.
  The model therefore keeps a store of objects. An object is a dict or, for a value read
  from the cache file, possibly some other JSON value, on which item assignment raises
  \<open>TypeError\<close>. The cache and the list of snapshots hold addresses.
\<close>

type_synonym addr = nat

datatype cell = CDict "pystr \<Rightarrow> pyval option" | COther

record run_state =
  cache :: "pystr \<Rightarrow> addr option"
  heap :: "addr \<Rightarrow> cell"
  next_addr :: addr
  snapshots :: "addr list"
  llm :: world

text \<open>A dict display \<open>{...}\<close> creates a new object.\<close>

definition alloc :: "cell \<Rightarrow> run_state \<Rightarrow> addr \<times> run_state" where
  "alloc c st =
     (next_addr st, st\<lparr>heap := (heap st)(next_addr st := c), next_addr := next_addr st + 1\<rparr>)"

text \<open>\<open>s[k] = v\<close>\<close>

definition set_item :: "addr \<Rightarrow> pystr \<Rightarrow> pyval \<Rightarrow> run_state \<Rightarrow> exc + run_state" where
  "set_item a k v st =
     (case heap st a of
        CDict d \<Rightarrow> Inr (st\<lparr>heap := (heap st)(a := CDict (d(k \<mapsto> v)))\<rparr>)
      | COther \<Rightarrow> Inl TypeError)"

text \<open>
  \<^verbatim>\<open>
  if not no_cache and key in cache:
      s = cache[key]
  else:
      s = summarise(rev["text"])
      if not no_cache:
          cache[key] = s
  \<close>
  \<open>summarise\<close> is called with its default parameters.
\<close>

definition get_summary ::
  "(pystr \<Rightarrow> pystr) \<Rightarrow> script \<Rightarrow> bool \<Rightarrow> pystr \<Rightarrow> run_state \<Rightarrow> (exc + addr) \<times> run_state" where
  "get_summary lower sc no_cache key st =
     (case (if no_cache then None else cache st key) of
        Some a \<Rightarrow> (Inr a, st)
      | None \<Rightarrow>
          (case summarise lower sc defaults (llm st) of
             (Inl e, w1) \<Rightarrow> (Inl e, st\<lparr>llm := w1\<rparr>)
           | (Inr s, w1) \<Rightarrow>
               (case alloc (CDict [lit ''sentiment'' \<mapsto> PStr (sentiment s),
                                   lit ''tldr'' \<mapsto> PStr (tldr s)]) (st\<lparr>llm := w1\<rparr>) of
                  (a, st1) \<Rightarrow>
                    (Inr a, if no_cache then st1 else st1\<lparr>cache := (cache st1)(key \<mapsto> a)\<rparr>))))"

text \<open>
  The body of the \<open>try\<close>: the exception raised, if any, and the state reached.
  \<^verbatim>\<open>
  s["author"] = rev["author"]
  s["recommended"] = rev.get("recommended")
  snapshots.append(s)
  \<close>
\<close>

definition try_body ::
  "(pystr \<Rightarrow> pystr) \<Rightarrow> script \<Rightarrow> bool \<Rightarrow> pystr \<Rightarrow> review \<Rightarrow> run_state
     \<Rightarrow> exc option \<times> run_state" where
  "try_body lower sc no_cache key rv st =
     (case get_summary lower sc no_cache key st of
        (Inl e, st1) \<Rightarrow> (Some e, st1)
      | (Inr a, st1) \<Rightarrow>
          (case set_item a (lit ''author'') (PStr (rev_author rv)) st1 of
             Inl e \<Rightarrow> (Some e, st1)
           | Inr st2 \<Rightarrow>
               (case set_item a (lit ''recommended'') (PBool (rev_recommended rv)) st2 of
                  Inl e \<Rightarrow> (Some e, st2)
                | Inr st3 \<Rightarrow> (None, st3\<lparr>snapshots := snapshots st3 @ [a]\<rparr>))))"

text \<open>
  \<^verbatim>\<open>
  except Exception as e:
      snapshots.append({"error": str(e), "author": rev["author"]})
  \<close>
  \<open>estr\<close> is \<open>str\<close> on exceptions.
\<close>

definition error_snapshot :: "(exc \<Rightarrow> pystr) \<Rightarrow> exc \<Rightarrow> review \<Rightarrow> run_state \<Rightarrow> run_state" where
  "error_snapshot estr e rv st =
     (case alloc (CDict [lit ''error'' \<mapsto> PStr (estr e),
                         lit ''author'' \<mapsto> PStr (rev_author rv)]) st of
        (a, st1) \<Rightarrow> st1\<lparr>snapshots := snapshots st1 @ [a]\<rparr>)"

text \<open>
  One pass of \<open>for rev in reviews\<close>. \<open>key = _hash_text(rev["text"])\<close> stands before the
  \<open>try\<close>: \<open>hash\<close> is \<open>_hash_text\<close>, the SHA-1 digest of the UTF-8 encoding, which raises
  where the text cannot be encoded; that exception leaves the loop.
\<close>

definition loop_body ::
  "(pystr \<Rightarrow> pystr) \<Rightarrow> script \<Rightarrow> (pystr \<Rightarrow> exc + pystr) \<Rightarrow> (exc \<Rightarrow> pystr) \<Rightarrow> bool
     \<Rightarrow> review \<Rightarrow> run_state \<Rightarrow> exc + run_state" where
  "loop_body lower sc hash estr no_cache rv st =
     (case hash (rev_text rv) of
        Inl e \<Rightarrow> Inl e
      | Inr key \<Rightarrow>
          (case try_body lower sc no_cache key rv st of
             (None, st1) \<Rightarrow> Inr st1
           | (Some e, st1) \<Rightarrow> Inr (error_snapshot estr e rv st1)))"

fun run_loop ::
  "(pystr \<Rightarrow> pystr) \<Rightarrow> script \<Rightarrow> (pystr \<Rightarrow> exc + pystr) \<Rightarrow> (exc \<Rightarrow> pystr) \<Rightarrow> bool
     \<Rightarrow> review list \<Rightarrow> run_state \<Rightarrow> exc + run_state" where
  "run_loop lower sc hash estr no_cache [] st = Inr st"
| "run_loop lower sc hash estr no_cache (rv # rvs) st =
     (case loop_body lower sc hash estr no_cache rv st of
        Inl e \<Rightarrow> Inl e
      | Inr st1 \<Rightarrow> run_loop lower sc hash estr no_cache rvs st1)"

text \<open>
  \<open>run\<close> after the reviews are fetched: \<open>cache = {} if no_cache else _load_cache(...)\<close>,
  \<open>snapshots = []\<close>, then the loop. The state \<open>loaded\<close> holds what \<open>_load_cache\<close> returned.
\<close>

definition run ::
  "(pystr \<Rightarrow> pystr) \<Rightarrow> script \<Rightarrow> (pystr \<Rightarrow> exc + pystr) \<Rightarrow> (exc \<Rightarrow> pystr) \<Rightarrow> bool
     \<Rightarrow> run_state \<Rightarrow> review list \<Rightarrow> exc + run_state" where
  "run lower sc hash estr no_cache loaded reviews =
     run_loop lower sc hash estr no_cache reviews
       (loaded\<lparr>cache := (if no_cache then Map.empty else cache loaded), snapshots := [],
                llm := w0\<rparr>)"

text \<open>The snapshots as the presentation layer reads them: the objects behind the list.\<close>

definition shown :: "run_state \<Rightarrow> cell list" where
  "shown st = map (heap st) (snapshots st)"

section \<open>Auxiliary definitions for the statements\<close>

text \<open>
  What the primary call-and-parse steps make of the outcome of the call: the exception
  raised, or the normalised sentiment and the stripped \<open>tldr\<close>. An attempt fails exactly
  when this is an exception (lemma \<open>attempt_body_isl\<close> below).
\<close>
definition primary :: "(pystr \<Rightarrow> pystr) \<Rightarrow> exc + reply \<Rightarrow> exc + (pystr \<times> pystr)" where
  "primary lower r =
     (case r of
        Inl e \<Rightarrow> Inl e
      | Inr NotDict \<Rightarrow> Inl AttributeError
      | Inr (Dict data) \<Rightarrow>
          (case normalize_sentiment lower (dict_get data (lit ''sentiment'') PNone) of
             Inl e \<Rightarrow> Inl e
           | Inr sent \<Rightarrow> Inr (sent, strip (py_str (dict_get data (lit ''tldr'') (PStr []))))))"

text \<open>
  The \<open>tldr\<close> that the repair pass reads from the outcome of the repair call, if it gets
  that far.
\<close>
definition repair_tldr :: "exc + reply \<Rightarrow> pystr option" where
  "repair_tldr r =
     (case r of
        Inl e \<Rightarrow> None
      | Inr NotDict \<Rightarrow> None
      | Inr (Dict data2) \<Rightarrow> Some (strip (py_str (dict_get data2 (lit ''tldr'') (PStr [])))))"

text \<open>
  The world after \<open>k\<close> failed attempts, the first of them being attempt number \<open>a\<close>:
  each made one primary call and was followed by its sleep.
\<close>
definition after_failures :: "params \<Rightarrow> nat \<Rightarrow> nat \<Rightarrow> world \<Rightarrow> world" where
  "after_failures p a k w =
     w\<lparr>ncalls := ncalls w + k,
       events := events w @ concat (map (\<lambda>i. [AskPrimary, Sleep (backoff p * 2 ^ (a + i))]) [0..<k])\<rparr>"

text \<open>
  The \<open>k\<close> primary calls that come next all make their attempt fail.
\<close>
definition failing :: "(pystr \<Rightarrow> pystr) \<Rightarrow> script \<Rightarrow> world \<Rightarrow> nat \<Rightarrow> bool" where
  "failing lower sc w k = list_all (\<lambda>i. isl (primary lower (sc (ncalls w + i)))) [0..<k]"

text \<open>
  The values on which \<open>(s or "").strip()\<close> is defined: a \<open>str\<close>, or a falsy value.
\<close>
fun str_or_falsy :: "pyval \<Rightarrow> bool" where
  "str_or_falsy (PStr s) = True"
| "str_or_falsy v = (\<not> truthy v)"

text \<open>
  The text \<open>s or ""\<close> of such a value.
\<close>
definition text_of :: "pyval \<Rightarrow> pystr" where
  "text_of v = (case v of PStr s \<Rightarrow> s | _ \<Rightarrow> [])"

text \<open>
  \<open>str(data.get("tldr", "")).strip()\<close>
\<close>
definition tldr_of :: "(pystr \<Rightarrow> pyval option) \<Rightarrow> pystr" where
  "tldr_of data = strip (py_str (dict_get data (lit ''tldr'') (PStr [])))"

text \<open>
  Readings of the recorded events: the sleeps in order, the number of repair calls.
\<close>
fun sleep_of :: "event \<Rightarrow> real list" where
  "sleep_of (Sleep d) = [d]"
| "sleep_of ev = []"

definition sleeps :: "world \<Rightarrow> real list" where
  "sleeps w = concat (map sleep_of (events w))"

fun is_repair :: "event \<Rightarrow> bool" where
  "is_repair (AskRepair lo hi) = True"
| "is_repair ev = False"

definition repairs :: "world \<Rightarrow> nat" where
  "repairs w = length (filter is_repair (events w))"

text \<open>
  A script from a list of outcomes, and a response with the two keys, for concrete runs.
\<close>
definition script_of :: "(exc + reply) list \<Rightarrow> script" where
  "script_of rs n = (if n < length rs then rs ! n else Inl (AskError (lit ''no more replies'')))"

definition reply_of :: "pyval \<Rightarrow> pyval \<Rightarrow> reply" where
  "reply_of s t = Dict [lit ''sentiment'' \<mapsto> s, lit ''tldr'' \<mapsto> t]"

text \<open>
  The number of primary calls recorded.
\<close>
definition primaries :: "world \<Rightarrow> nat" where
  "primaries w = length (filter (\<lambda>ev. ev = AskPrimary) (events w))"


definition tldr7 :: pystr where "tldr7 = lit ''Fun game with a few rough edges''"
definition tldr10 :: pystr where
  "tldr10 = lit ''A wonderful story driven experience that I thoroughly enjoyed playing''"
definition tldr20 :: pystr where
  "tldr20 = lit ''a b c d e f g h i j k l m n o p q r s t''"
definition tldr30 :: pystr where
  "tldr30 = lit ''a b c d e f g h i j k l m n o p q r s t u v w x y z a b c d''"







text \<open>
  More scripts: a response of 7 words; a repair call that raises; an empty \<open>tldr\<close>
  twice; 30 words repaired to 20; a response whose sentiment is the number 1.
\<close>
definition sc_near :: script where
  "sc_near = script_of [Inr (reply_of (PStr (lit ''positive'')) (PStr tldr7))]"





definition sc_long :: script where
  "sc_long = script_of [Inr (reply_of PNone (PStr tldr30)), Inr (reply_of PNone (PStr tldr20))]"

definition sc_badsent :: script where
  "sc_badsent = (\<lambda>n. Inr (reply_of (PInt 1) (PStr tldr10)))"

text \<open>
  Well-formedness of the store: the cache and the snapshots refer to allocated objects
  only. An object is unshared when it is allocated and no cache entry refers to it.
\<close>
definition cache_ok :: "run_state \<Rightarrow> bool" where
  "cache_ok st \<longleftrightarrow> (\<forall>k a. cache st k = Some a \<longrightarrow> a < next_addr st)"

definition wf :: "run_state \<Rightarrow> bool" where
  "wf st \<longleftrightarrow> cache_ok st \<and> (\<forall>a \<in> set (snapshots st). a < next_addr st)"


text \<open>
  One pass of the loop once the key is computed.
\<close>
definition step ::
  "(pystr \<Rightarrow> pystr) \<Rightarrow> script \<Rightarrow> (exc \<Rightarrow> pystr) \<Rightarrow> bool \<Rightarrow> pystr \<Rightarrow> review \<Rightarrow> run_state
     \<Rightarrow> run_state" where
  "step lower sc estr no_cache key rv st =
     (case try_body lower sc no_cache key rv st of
        (None, st1) \<Rightarrow> st1
      | (Some e, st1) \<Rightarrow> error_snapshot estr e rv st1)"


text \<open>
  A concrete run: no cache file, three reviews of which the last two have the same text,
  the identity in place of the digest, and a rendering of exceptions.
\<close>
definition empty_state :: run_state where
  "empty_state = \<lparr>cache = Map.empty, heap = (\<lambda>a. COther), next_addr = 0, snapshots = [], llm = w0\<rparr>"



definition review2 :: review where
  "review2 = \<lparr>rev_author = lit ''76561198000000002'', rev_text = lit ''Amazing game, loved the story'',
              rev_recommended = True\<rparr>"

definition review3 :: review where
  "review3 = \<lparr>rev_author = lit ''76561198000000003'', rev_text = lit ''Amazing game, loved the story'',
              rev_recommended = False\<rparr>"

definition hash_id :: "pystr \<Rightarrow> exc + pystr" where
  "hash_id t = Inr t"



definition estr0 :: "exc \<Rightarrow> pystr" where
  "estr0 e = (case e of AskError m \<Rightarrow> m | _ \<Rightarrow> lit ''error'')"

section \<open>Properties\<close>

subsection \<open>One attempt, and the retry loop\<close>

lemma failing_iff: "failing lower sc w k \<longleftrightarrow> (\<forall>i<k. isl (primary lower (sc (ncalls w + i))))"
  by (auto simp: failing_def list_all_iff)

lemma attempt_body_fail:
  "primary lower (sc (ncalls w)) = Inl e \<Longrightarrow>
   attempt_body lower sc p w = (Inl e, w\<lparr>ncalls := ncalls w + 1, events := events w @ [AskPrimary]\<rparr>)"
  by (auto simp: attempt_body_def ask_gemini_def primary_def split: sum.splits reply.splits)

lemma attempt_body_near:
  "primary lower (sc (ncalls w)) = Inr (sent, tldr0) \<Longrightarrow>
   extreme_min p \<le> count_words tldr0 \<Longrightarrow> count_words tldr0 \<le> extreme_max p \<Longrightarrow>
   attempt_body lower sc p w =
     (Inr \<lparr>sentiment = sent, tldr = tldr0\<rparr>,
      w\<lparr>ncalls := ncalls w + 1, events := events w @ [AskPrimary]\<rparr>)"
  by (auto simp: attempt_body_def ask_gemini_def primary_def Let_def split: sum.splits reply.splits)

lemma attempt_body_far:
  "primary lower (sc (ncalls w)) = Inr (sent, tldr0) \<Longrightarrow>
   count_words tldr0 < extreme_min p \<or> count_words tldr0 > extreme_max p \<Longrightarrow>
   attempt_body lower sc p w =
     (Inr \<lparr>sentiment = sent,
           tldr = (case repair_tldr (sc (ncalls w + 1)) of
                     None \<Rightarrow> tldr0
                   | Some tldr2 \<Rightarrow>
                       if \<bar>count_words tldr2 - 10\<bar> < \<bar>count_words tldr0 - 10\<bar> then tldr2 else tldr0)\<rparr>,
      w\<lparr>ncalls := ncalls w + 2,
        events := events w @ [AskPrimary, AskRepair (accept_min p) (accept_max p)]\<rparr>)"
  by (auto simp: attempt_body_def ask_gemini_def primary_def repair_def repair_tldr_def Let_def
           split: sum.splits reply.splits)

lemma attempts_last_err: "attempts lower sc p (a # rest) le w = attempts lower sc p (a # rest) le' w"
  by simp

lemma after_failures_0: "after_failures p a 0 w = w"
  by (simp add: after_failures_def)

lemma after_failures_Suc:
  "after_failures p a (Suc n) w =
   after_failures p (Suc a) n
     (w\<lparr>ncalls := ncalls w + 1, events := events w @ [AskPrimary, Sleep (backoff p * 2 ^ a)]\<rparr>)"
proof -
  have "[0..<Suc n] = 0 # map Suc [0..<n]"
    by (simp add: upt_conv_Cons map_Suc_upt del: upt_Suc)
  then show ?thesis
    by (simp add: after_failures_def comp_def del: upt_Suc)
qed

lemma attempts_skip:
  assumes "0 \<le> backoff p"
  shows "\<forall>i<n. isl (primary lower (sc (ncalls w + i))) \<Longrightarrow> 0 \<le> a \<Longrightarrow> a + int n \<le> retries p \<Longrightarrow>
     attempts lower sc p [a..retries p] le w =
     attempts lower sc p [a + int n..retries p] le (after_failures p (nat a) n w)"
proof (induction n arbitrary: a w le)
  case 0
  then show ?case by (simp add: after_failures_0)
next
  case (Suc n)
  from Suc.prems(1) have "isl (primary lower (sc (ncalls w)))" by force
  then obtain e where e: "primary lower (sc (ncalls w)) = Inl e"
    by (cases "primary lower (sc (ncalls w))") auto
  let ?w1 = "w\<lparr>ncalls := ncalls w + 1, events := events w @ [AskPrimary]\<rparr>"
  let ?w2 = "w\<lparr>ncalls := ncalls w + 1, events := events w @ [AskPrimary, Sleep (backoff p * 2 ^ nat a)]\<rparr>"
  have lt: "a < retries p" using Suc.prems by simp
  have up: "[a..retries p] = a # [a + 1..retries p]"
    using lt by (simp add: upto_rec1)
  have sl: "sleep (backoff p * 2 ^ nat a) ?w1 = Inr ?w2"
  proof -
    have "0 \<le> backoff p * 2 ^ nat a" using assms by simp
    then show ?thesis by (simp add: sleep_def not_less)
  qed
  have step: "attempts lower sc p [a..retries p] le w = attempts lower sc p [a + 1..retries p] (Some e) ?w2"
    using attempt_body_fail[of lower sc w e p, OF e] sl by (simp add: up lt)
  have pre: "\<forall>i<n. isl (primary lower (sc (ncalls ?w2 + i)))"
    using Suc.prems(1) by auto
  have ih: "attempts lower sc p [a + 1..retries p] (Some e) ?w2 =
        attempts lower sc p [a + 1 + int n..retries p] (Some e) (after_failures p (nat (a + 1)) n ?w2)"
    using Suc.IH[OF pre, of "a + 1" "Some e"] Suc.prems by simp
  have ne: "[a + 1 + int n..retries p] = (a + 1 + int n) # [a + 1 + int n + 1..retries p]"
    using Suc.prems by (simp add: upto_rec1)
  have nat_eq: "nat (a + 1) = Suc (nat a)" using Suc.prems by simp
  have irr: "attempts lower sc p [a + 1 + int n..retries p] (Some e) (after_failures p (nat (a + 1)) n ?w2)
      = attempts lower sc p [a + 1 + int n..retries p] le (after_failures p (nat (a + 1)) n ?w2)"
    unfolding ne by (rule attempts_last_err)
  have w_eq: "after_failures p (nat (a + 1)) n ?w2 = after_failures p (nat a) (Suc n) w"
    unfolding nat_eq after_failures_Suc ..
  have i_eq: "a + 1 + int n = a + int (Suc n)" by simp
  have "attempts lower sc p [a..retries p] le w =
        attempts lower sc p [a + 1 + int n..retries p] le (after_failures p (nat (a + 1)) n ?w2)"
    using step ih irr by (rule trans[OF trans])
  then show ?case
    by (simp only: w_eq i_eq)
qed

lemma attempt_body_isl:
  "isl (fst (attempt_body lower sc p w)) = isl (primary lower (sc (ncalls w)))"
  by (auto simp: attempt_body_def ask_gemini_def primary_def repair_def Let_def
           split: sum.splits reply.splits prod.splits)

lemma summarise_at:
  assumes "0 \<le> backoff p" "int k \<le> retries p" "failing lower sc w k"
    and "int k = retries p \<or> \<not> isl (primary lower (sc (ncalls w + k)))"
  shows "summarise lower sc p w = attempt_body lower sc p (after_failures p 0 k w)"
proof -
  let ?w = "after_failures p 0 k w"
  have nc: "ncalls ?w = ncalls w + k" by (simp add: after_failures_def)
  have "summarise lower sc p w = attempts lower sc p [int k..retries p] None ?w"
    using attempts_skip[OF assms(1), of k lower sc w 0 None] assms(2,3)
    by (simp add: summarise_def failing_iff)
  also have "[int k..retries p] = int k # [int k + 1..retries p]"
    using assms(2) by (simp add: upto_rec1)
  also have "attempts lower sc p (int k # [int k + 1..retries p]) None ?w = attempt_body lower sc p ?w"
  proof (cases "attempt_body lower sc p ?w")
    case (Pair r w1)
    show ?thesis
    proof (cases r)
      case (Inl e)
      with Pair have "isl (primary lower (sc (ncalls w + k)))"
        using attempt_body_isl[of lower sc p ?w] nc by simp
      with assms(4) have "int k = retries p" by blast
      with Pair Inl show ?thesis by simp
    next
      case (Inr s)
      with Pair show ?thesis by simp
    qed
  qed
  finally show ?thesis .
qed

subsection \<open>Sentiment normalisation\<close>

text \<open>
  Claim C5, as amended. \<open>_normalize_sentiment\<close> returns one of \<open>"pos"\<close>, \<open>"neg"\<close>,
  \<open>"mixed"\<close> and does not raise for every input that is a \<open>str\<close> or is falsy (\<open>None\<close>,
  \<open>""\<close>, \<open>False\<close>, \<open>0\<close>, an empty list or dict): \<open>"pos"\<close> exactly when the stripped,
  lower-cased text is a positive token, \<open>"neg"\<close> exactly when it is a negative token, and
  \<open>"mixed"\<close> otherwise; a falsy value, such as a missing one, gives \<open>"mixed"\<close> (the lower
  case of the empty string being empty). For a truthy value that is not a \<open>str\<close> (a number, \<open>True\<close>, a
  non-empty list or dict) it raises \<open>AttributeError\<close>. This holds for every case mapping
  \<open>lower\<close>.
\<close>
theorem normalize_sentiment_total_on_str:
  "(str_or_falsy v \<longrightarrow>
      (\<exists>r. normalize_sentiment lower v = Inr r
         \<and> r \<in> {lit ''pos'', lit ''neg'', lit ''mixed''}
         \<and> (r = lit ''pos'' \<longleftrightarrow>
              lower (strip (text_of v)) \<in> {lit ''pos'', lit ''positive'', [240, 376, 8216], lit ''good''})
         \<and> (r = lit ''neg'' \<longleftrightarrow>
              lower (strip (text_of v)) \<in> {lit ''neg'', lit ''negative'', [240, 376, 8216, 381], lit ''bad''})
         \<and> (\<not> truthy v \<and> lower [] = [] \<longrightarrow> r = lit ''mixed'')))
   \<and> (\<not> str_or_falsy v \<longrightarrow> normalize_sentiment lower v = Inl AttributeError)"
  by (cases v) (auto simp: normalize_sentiment_def text_of_def Let_def lit_def strip_def)

text \<open>The theorem at \<open>"  Positive "\<close> and at \<open>None\<close>.\<close>
theorem normalize_sentiment_total_on_str_witness:
  "str_or_falsy (PStr (lit ''  Positive '')) \<and> str_or_falsy PNone
   \<and> normalize_sentiment ascii_lower (PStr (lit ''  Positive '')) = Inr (lit ''pos'')
   \<and> normalize_sentiment ascii_lower PNone = Inr (lit ''mixed'')"
  using normalize_sentiment_total_on_str [of "PStr (lit ''  Positive '')" ascii_lower]
        normalize_sentiment_total_on_str [of PNone ascii_lower]
  by (auto simp: text_of_def lit_def strip_def py_isspace_def ascii_lower_def)

text \<open>
  Claim C5 as stated fails: the sentiment value \<open>1\<close>, which \<open>data.get("sentiment")\<close>
  returns for the response \<open>{"sentiment": 1, ...}\<close>, makes \<open>_normalize_sentiment\<close> raise.
\<close>
theorem normalize_sentiment_raises: "normalize_sentiment ascii_lower (PInt 1) = Inl AttributeError"
  by (simp add: normalize_sentiment_def)

subsection \<open>Retries and backoff\<close>


lemma words_tldr7: "strip tldr7 = tldr7" "count_words tldr7 = 7"
  by (simp_all add: tldr7_def count_words_def lit_def strip_def py_isspace_def)


lemma words_tldr20: "strip tldr20 = tldr20" "count_words tldr20 = 20"
  by (simp_all add: tldr20_def count_words_def lit_def strip_def py_isspace_def)

lemma words_tldr30: "strip tldr30 = tldr30" "count_words tldr30 = 30"
  by (simp_all add: tldr30_def count_words_def lit_def strip_def py_isspace_def)








lemma attempt_body_sleeps: "sleeps (snd (attempt_body lower sc p w)) = sleeps w"
  by (auto simp: attempt_body_def ask_gemini_def repair_def sleeps_def Let_def
           split: sum.splits reply.splits prod.splits)

lemma attempt_body_primaries: "primaries (snd (attempt_body lower sc p w)) = primaries w + 1"
  by (auto simp: attempt_body_def ask_gemini_def repair_def primaries_def Let_def
           split: sum.splits reply.splits prod.splits)

lemma primary_ok:
  "r = Inr (Dict data) \<Longrightarrow>
   normalize_sentiment lower (dict_get data (lit ''sentiment'') PNone) = Inr sent \<Longrightarrow>
   primary lower r = Inr (sent, tldr_of data)"
  by (simp add: primary_def tldr_of_def)

lemma normalize_sentiment_ok:
  "str_or_falsy v \<Longrightarrow>
   \<exists>r. normalize_sentiment lower v = Inr r \<and> r \<in> {lit ''pos'', lit ''neg'', lit ''mixed''}"
  by (cases v) (auto simp: normalize_sentiment_def Let_def)

lemma normalize_sentiment_bad:
  "\<not> str_or_falsy v \<Longrightarrow> normalize_sentiment lower v = Inl AttributeError"
  by (cases v) (auto simp: normalize_sentiment_def)

text \<open>
  Sentiment normalisation returns exactly on the values that are a \<open>str\<close> or falsy.
\<close>
lemma normalize_sentiment_returns_iff:
  "(\<exists>sent. normalize_sentiment lower v = Inr sent) \<longleftrightarrow> str_or_falsy v"
  using normalize_sentiment_ok [of v lower] normalize_sentiment_bad [of v lower]
  by (cases "str_or_falsy v") auto




lemma normalize_positive: "normalize_sentiment ascii_lower (PStr (lit ''positive'')) = Inr (lit ''pos'')"
  by (simp add: normalize_sentiment_def lit_def ascii_lower_def strip_def py_isspace_def)

lemma w0_simps: "ncalls w0 = 0" "events w0 = []" "repairs w0 = 0" "sleeps w0 = []" "primaries w0 = 0"
  by (simp_all add: w0_def repairs_def sleeps_def primaries_def)




subsection \<open>The acceptance policy\<close>










subsection \<open>Empty summaries, unchecked repairs, totality\<close>



lemma summarise_first:
  assumes "0 \<le> retries p" and "\<not> isl (primary lower (sc (ncalls w)))"
  shows "summarise lower sc p w = attempt_body lower sc p w"
proof -
  have up: "[0..retries p] = 0 # [0 + 1..retries p]"
    using assms(1) by (simp add: upto_rec1)
  have "\<not> isl (fst (attempt_body lower sc p w))"
    using assms(2) by (simp add: attempt_body_isl)
  then show ?thesis
    unfolding summarise_def up
    by (cases "attempt_body lower sc p w") (auto split: sum.splits)
qed

text \<open>
  For negative \<open>retries\<close> the loop body never runs and \<open>raise last_err\<close> raises
  \<open>TypeError\<close>; the statements below therefore assume \<open>0 \<le> retries\<close>, which holds for the
  default 2, the only value \<open>run\<close> uses.
\<close>
lemma summarise_negative_retries:
  "retries p < 0 \<Longrightarrow> summarise lower sc p w = (Inl TypeError, w)"
  by (simp add: summarise_def)

lemma attempt_body_sentiment:
  assumes "primary lower (sc (ncalls w)) = Inr (sent, t)"
  shows "\<exists>t'. fst (attempt_body lower sc p w) = Inr \<lparr>sentiment = sent, tldr = t'\<rparr>"
proof (cases "count_words t < extreme_min p \<or> count_words t > extreme_max p")
  case True
  show ?thesis
    unfolding attempt_body_far[of lower sc w sent t p, OF assms True] by simp
next
  case False
  then have "extreme_min p \<le> count_words t" "count_words t \<le> extreme_max p" by auto
  from attempt_body_near[of lower sc w sent t p, OF assms this] show ?thesis by simp
qed




text \<open>
  Claim C9. An adopted repair \<open>tldr\<close> is checked against no band: for a primary response
  of 30 words and a repair response of 20 words, \<open>summarise\<close> with the default parameters
  returns, without error, the \<open>tldr\<close> of 20 words, which lies above \<open>accept_max\<close> and above
  \<open>extreme_max\<close>.
\<close>
theorem summarise_adopts_out_of_band_repair:
  "fst (summarise ascii_lower sc_long defaults w0) = Inr \<lparr>sentiment = lit ''mixed'', tldr = tldr20\<rparr>
   \<and> events (snd (summarise ascii_lower sc_long defaults w0)) = [AskPrimary, AskRepair 8 12]
   \<and> count_words tldr20 = 20
   \<and> accept_max defaults < count_words tldr20
   \<and> extreme_max defaults < count_words tldr20"
proof -
  let ?d = "[lit ''sentiment'' \<mapsto> PNone, lit ''tldr'' \<mapsto> PStr tldr30]"
  have d: "sc_long (ncalls w0) = Inr (Dict ?d)"
    by (simp add: sc_long_def script_of_def w0_def reply_of_def)
  have n: "normalize_sentiment ascii_lower (dict_get ?d (lit ''sentiment'') PNone) = Inr (lit ''mixed'')"
    by (simp add: dict_get_def normalize_sentiment_def lit_def ascii_lower_def strip_def)
  have t: "tldr_of ?d = tldr30"
    by (simp add: tldr_of_def dict_get_def lit_def words_tldr30)
  have pr: "primary ascii_lower (sc_long (ncalls w0)) = Inr (lit ''mixed'', tldr30)"
    using primary_ok [OF d n] by (simp add: t)
  then have ok: "\<not> isl (primary ascii_lower (sc_long (ncalls w0)))" by simp
  have far: "count_words tldr30 < extreme_min defaults \<or> count_words tldr30 > extreme_max defaults"
    by (simp add: words_tldr30 defaults_def)
  have r: "repair_tldr (sc_long (ncalls w0 + 1)) = Some tldr20"
    by (simp add: sc_long_def script_of_def w0_def reply_of_def repair_tldr_def dict_get_def lit_def
          words_tldr20)
  have re: "0 \<le> retries defaults" by (simp add: defaults_def)
  have eq: "summarise ascii_lower sc_long defaults w0 = attempt_body ascii_lower sc_long defaults w0"
    using re ok by (rule summarise_first)
  show ?thesis
    unfolding eq attempt_body_far[of ascii_lower sc_long w0 "lit ''mixed''" tldr30 defaults, OF pr far] r
    by (simp add: words_tldr20 words_tldr30 w0_simps defaults_def)
qed

text \<open>
  Claim C10, as amended. Let the first primary call return a dict, with \<open>retries \<ge> 0\<close>.
  If its sentiment value is a \<open>str\<close> or is falsy (absent, \<open>None\<close>, \<open>""\<close>, \<open>False\<close>,
  \<open>0\<close>, an empty list or dict), \<open>summarise\<close> returns a record whose sentiment is one of
  \<open>"pos"\<close>, \<open>"neg"\<close>, \<open>"mixed"\<close>, after one primary call and without any sleep; a failure
  of the repair call does not change that. If the sentiment value is a truthy value that
  is not a \<open>str\<close>, the attempt raises \<open>AttributeError\<close> and counts as a failed attempt.
\<close>
theorem summarise_first_attempt_returns:
  assumes "0 \<le> retries p" and "sc (ncalls w) = Inr (Dict data)"
  shows "(str_or_falsy (dict_get data (lit ''sentiment'') PNone) \<longrightarrow>
            (\<exists>s. fst (summarise lower sc p w) = Inr s
                \<and> sentiment s \<in> {lit ''pos'', lit ''neg'', lit ''mixed''})
          \<and> sleeps (snd (summarise lower sc p w)) = sleeps w
          \<and> primaries (snd (summarise lower sc p w)) = primaries w + 1)
       \<and> (\<not> str_or_falsy (dict_get data (lit ''sentiment'') PNone) \<longrightarrow>
            attempt_body lower sc p w =
              (Inl AttributeError, w\<lparr>ncalls := ncalls w + 1, events := events w @ [AskPrimary]\<rparr>))"
proof (intro conjI impI)
  assume "\<not> str_or_falsy (dict_get data (lit ''sentiment'') PNone)"
  then have "primary lower (sc (ncalls w)) = Inl AttributeError"
    using assms(2) by (simp add: primary_def normalize_sentiment_bad)
  then show "attempt_body lower sc p w =
      (Inl AttributeError, w\<lparr>ncalls := ncalls w + 1, events := events w @ [AskPrimary]\<rparr>)"
    by (rule attempt_body_fail)
next
  assume sf: "str_or_falsy (dict_get data (lit ''sentiment'') PNone)"
  from normalize_sentiment_ok [OF sf, of lower] obtain r where
    r: "normalize_sentiment lower (dict_get data (lit ''sentiment'') PNone) = Inr r"
    and rin: "r \<in> {lit ''pos'', lit ''neg'', lit ''mixed''}" by blast
  have pr: "primary lower (sc (ncalls w)) = Inr (r, tldr_of data)"
    using assms(2) r by (rule primary_ok)
  then have "\<not> isl (primary lower (sc (ncalls w)))" by simp
  with assms(1) have eq: "summarise lower sc p w = attempt_body lower sc p w"
    by (rule summarise_first)
  from attempt_body_sentiment [of lower sc w r "tldr_of data" p, OF pr] obtain t' where
    "fst (attempt_body lower sc p w) = Inr \<lparr>sentiment = r, tldr = t'\<rparr>" by blast
  with rin show "\<exists>s. fst (summarise lower sc p w) = Inr s
                \<and> sentiment s \<in> {lit ''pos'', lit ''neg'', lit ''mixed''}"
    unfolding eq by simp
  show "sleeps (snd (summarise lower sc p w)) = sleeps w"
    unfolding eq by (rule attempt_body_sleeps)
  show "primaries (snd (summarise lower sc p w)) = primaries w + 1"
    unfolding eq by (rule attempt_body_primaries)
qed

text \<open>
  The theorem for the near response of 7 words (sentiment \<open>"positive"\<close>) and for a
  response whose sentiment is the number 1.
\<close>
theorem summarise_first_attempt_returns_witness:
  "0 \<le> retries defaults
   \<and> str_or_falsy (PStr (lit ''positive'')) \<and> \<not> str_or_falsy (PInt 1)
   \<and> \<not> isl (fst (summarise ascii_lower sc_near defaults w0))
   \<and> sleeps (snd (summarise ascii_lower sc_near defaults w0)) = []
   \<and> fst (attempt_body ascii_lower sc_badsent defaults w0) = Inl AttributeError"
proof -
  let ?d = "[lit ''sentiment'' \<mapsto> PStr (lit ''positive''), lit ''tldr'' \<mapsto> PStr tldr7]"
  let ?e = "[lit ''sentiment'' \<mapsto> PInt 1, lit ''tldr'' \<mapsto> PStr tldr10]"
  have re: "0 \<le> retries defaults" by (simp add: defaults_def)
  have d: "sc_near (ncalls w0) = Inr (Dict ?d)"
    by (simp add: sc_near_def script_of_def w0_def reply_of_def)
  have e: "sc_badsent (ncalls w0) = Inr (Dict ?e)"
    by (simp add: sc_badsent_def reply_of_def)
  have gd: "dict_get ?d (lit ''sentiment'') PNone = PStr (lit ''positive'')"
    and ge: "dict_get ?e (lit ''sentiment'') PNone = PInt 1"
    by (simp_all add: dict_get_def lit_def)
  have s1: "str_or_falsy (PStr (lit ''positive''))" and s2: "\<not> str_or_falsy (PInt 1)"
    by simp_all
  note td = summarise_first_attempt_returns [of defaults sc_near w0 ?d ascii_lower, OF re d, unfolded gd]
  note te = summarise_first_attempt_returns [of defaults sc_badsent w0 ?e ascii_lower, OF re e, unfolded ge]
  have c1: "\<not> isl (fst (summarise ascii_lower sc_near defaults w0))"
    using td s1 by auto
  have c2: "sleeps (snd (summarise ascii_lower sc_near defaults w0)) = []"
    using td s1 by (simp add: w0_simps)
  have c3: "fst (attempt_body ascii_lower sc_badsent defaults w0) = Inl AttributeError"
    using te s2 by simp
  show ?thesis
    by (intro conjI re s1 s2 c1 c2 c3)
qed

text \<open>
  Claim C10 as stated fails: a first response \<open>{"sentiment": 1, "tldr": ...}\<close> parses to
  a JSON object, yet the attempt raises; \<open>summarise\<close> sleeps and retries, and with the same
  response every time it raises \<open>AttributeError\<close> after the third attempt.
\<close>
theorem summarise_object_response_raises:
  "summarise ascii_lower sc_badsent defaults w0 =
     (Inl AttributeError,
      \<lparr>ncalls = 3, events = [AskPrimary, Sleep 0.8, AskPrimary, Sleep 1.6, AskPrimary]\<rparr>)"
proof -
  have pr: "primary ascii_lower (sc_badsent n) = Inl AttributeError" for n
    by (simp add: sc_badsent_def reply_of_def primary_def dict_get_def lit_def normalize_sentiment_def)
  have b: "0 \<le> backoff defaults" and k: "int 2 \<le> retries defaults"
    by (simp_all add: defaults_def)
  have f: "failing ascii_lower sc_badsent w0 2"
    unfolding failing_iff by (simp add: pr)
  have l: "int 2 = retries defaults \<or> \<not> isl (primary ascii_lower (sc_badsent (ncalls w0 + 2)))"
    by (simp add: defaults_def)
  have eq: "summarise ascii_lower sc_badsent defaults w0 =
      attempt_body ascii_lower sc_badsent defaults (after_failures defaults 0 2 w0)"
    using b k f l by (rule summarise_at)
  have w: "after_failures defaults 0 2 w0 =
      \<lparr>ncalls = 2, events = [AskPrimary, Sleep 0.8, AskPrimary, Sleep 1.6]\<rparr>"
    by (simp add: after_failures_def w0_def defaults_def numeral_2_eq_2)
  show ?thesis
    unfolding eq w
    using attempt_body_fail [of ascii_lower sc_badsent
        "\<lparr>ncalls = 2, events = [AskPrimary, Sleep 0.8, AskPrimary, Sleep 1.6]\<rparr>" AttributeError defaults]
    by (simp add: pr)
qed

subsection \<open>The loop over the reviews\<close>












lemma summarise_sc_near:
  "summarise ascii_lower sc_near defaults w0 =
     (Inr \<lparr>sentiment = lit ''pos'', tldr = tldr7\<rparr>, \<lparr>ncalls = 1, events = [AskPrimary]\<rparr>)"
proof -
  let ?d = "[lit ''sentiment'' \<mapsto> PStr (lit ''positive''), lit ''tldr'' \<mapsto> PStr tldr7]"
  have d: "sc_near (ncalls w0) = Inr (Dict ?d)"
    by (simp add: sc_near_def script_of_def w0_def reply_of_def)
  have n: "normalize_sentiment ascii_lower (dict_get ?d (lit ''sentiment'') PNone) = Inr (lit ''pos'')"
    using normalize_positive by (simp add: dict_get_def lit_def)
  have t: "tldr_of ?d = tldr7"
    by (simp add: tldr_of_def dict_get_def lit_def words_tldr7)
  have pr: "primary ascii_lower (sc_near (ncalls w0)) = Inr (lit ''pos'', tldr7)"
    using primary_ok [OF d n] by (simp add: t)
  then have ok: "\<not> isl (primary ascii_lower (sc_near (ncalls w0)))" by simp
  have re: "0 \<le> retries defaults" by (simp add: defaults_def)
  have eq: "summarise ascii_lower sc_near defaults w0 = attempt_body ascii_lower sc_near defaults w0"
    using re ok by (rule summarise_first)
  have lo: "extreme_min defaults \<le> count_words tldr7" and hi: "count_words tldr7 \<le> extreme_max defaults"
    by (simp_all add: words_tldr7 defaults_def)
  show ?thesis
    unfolding eq attempt_body_near [of ascii_lower sc_near w0 "lit ''pos''" tldr7 defaults, OF pr lo hi]
    by (simp add: w0_def)
qed



text \<open>
  Claim C8 fails on the code. With caching enabled and an empty cache, take two reviews
  with the same text by different authors. The second is served from the cache, with one
  call of the model in all. But the object put into the cache is the one that then
  receives \<open>author\<close> and \<open>recommended\<close>: the cache entry is not of shape
  \<open>{sentiment, tldr}\<close>, and since both snapshots are that same object, the first
  review's snapshot ends with the second review's author and flag.
\<close>
theorem run_cache_entry_aliased:
  "\<exists>st d. run ascii_lower sc_near hash_id estr0 False empty_state [review2, review3] = Inr st
     \<and> ncalls (llm st) = 1
     \<and> cache st (rev_text review2) = Some 0
     \<and> heap st 0 = CDict d
     \<and> d (lit ''sentiment'') = Some (PStr (lit ''pos''))
     \<and> d (lit ''tldr'') = Some (PStr tldr7)
     \<and> d (lit ''author'') = Some (PStr (rev_author review3))
     \<and> d (lit ''recommended'') = Some (PBool False)
     \<and> shown st = [CDict d, CDict d]"
  by (simp add: run_def loop_body_def try_body_def get_summary_def set_item_def alloc_def
        hash_id_def empty_state_def summarise_sc_near shown_def review2_def review3_def lit_def)

end
